theory Spec2Isabelle
  imports Complex_Main
begin

section \<open>The status monitor of \<^verbatim>\<open>src/server.js\<close>\<close>

text \<open>
  The server keeps its whole state in module-level variables. They are gathered here
  in one record that every operation takes and returns. Instants (\<^verbatim>\<open>Date\<close> objects
  and the results of \<^verbatim>\<open>Date.now()\<close>) are their time values: integer milliseconds
  since the epoch. The two counters are JavaScript numbers that only ever hold
  integers far below \<open>2 ^ 53\<close>, where the arithmetic of doubles is exact; they are
  modelled as \<open>int\<close>. A variable that may hold \<^verbatim>\<open>null\<close> is an \<open>option\<close>.
\<close>

subsection \<open>Tracking variables (lines 14-29)\<close>

datatype http_status = StatusCode nat | ErrorName string

record monitor =
  isOnline :: "bool option"
  lastOnlineTime :: "int option"
  downStartTime :: "int option"
  lastCheck :: "int option"
  lastHttpStatus :: "http_status option"
  uptimeSeconds :: int
  downtimeSeconds :: int
  lastStateChange :: "int option"
  lastStatus :: "bool option"
  lastUpdatedAt :: int

text \<open>The values of the declarations; \<open>t\<close> is what \<^verbatim>\<open>Date.now()\<close> returns at line 29.\<close>

definition initial :: "int \<Rightarrow> monitor" where
  "initial t =
     \<lparr> isOnline = None, lastOnlineTime = None, downStartTime = None, lastCheck = None,
       lastHttpStatus = None, uptimeSeconds = 0, downtimeSeconds = 0,
       lastStateChange = None, lastStatus = None, lastUpdatedAt = t \<rparr>"

subsection \<open>Uptime accounting (lines 130-158)\<close>

text \<open>
  \<open>updateUptimeTracker now s\<close>: the function body run in state \<open>s\<close> when \<^verbatim>\<open>nowMs()\<close>
  returns \<open>now\<close>. \<^verbatim>\<open>Math.floor(deltaMs / 1000)\<close> is \<open>deltaMs div 1000\<close>: \<open>div\<close> on
  \<open>int\<close> rounds towards minus infinity, as \<^verbatim>\<open>Math.floor\<close> does.
\<close>

definition updateUptimeTracker :: "int \<Rightarrow> monitor \<Rightarrow> monitor" where
  "updateUptimeTracker now s =
     (case lastStatus s of
        None \<Rightarrow> s\<lparr>lastUpdatedAt := now\<rparr>
      | Some online \<Rightarrow>
          (let deltaMs = now - lastUpdatedAt s in
           if deltaMs < 1000 then s\<lparr>lastUpdatedAt := now\<rparr>
           else
             (let deltaSec = deltaMs div 1000;
                  s1 = (if online then s\<lparr>uptimeSeconds := uptimeSeconds s + deltaSec\<rparr>
                        else s\<lparr>downtimeSeconds := downtimeSeconds s + deltaSec\<rparr>)
              in s1\<lparr>lastUpdatedAt := lastUpdatedAt s1 + deltaSec * 1000\<rparr>)))"

text \<open>The sum of the two counters.\<close>

definition accounted :: "monitor \<Rightarrow> int" where
  "accounted s = uptimeSeconds s + downtimeSeconds s"

text \<open>Settlement calls one after the other, each with the clock reading it gets.\<close>

fun settlements :: "int list \<Rightarrow> monitor \<Rightarrow> monitor" where
  "settlements [] s = s"
| "settlements (now # nows) s = settlements nows (updateUptimeTracker now s)"

text \<open>
  The \<^verbatim>\<open>deltaMs\<close> that each call of such a sequence computes at line 139, against the
  anchor as the calls before it left it.
\<close>

fun deltas :: "int list \<Rightarrow> monitor \<Rightarrow> int list" where
  "deltas [] s = []"
| "deltas (now # nows) s = (now - lastUpdatedAt s) # deltas nows (updateUptimeTracker now s)"

subsection \<open>The \<^verbatim>\<open>Date\<close> methods the helpers call\<close>

text \<open>
  These are library functions, written out from the ECMAScript definition of
  \<^verbatim>\<open>Date.prototype\<close>. A \<^verbatim>\<open>Date\<close> is its time value \<open>t\<close>, in UTC; the getters and
  setters work on the local time of the server's time zone. \<^verbatim>\<open>TimeClip\<close> is left out:
  clock readings are far inside the range of valid dates.
\<close>

definition msPerDay :: int where
  "msPerDay = 86400000"

definition Day :: "int \<Rightarrow> int" where
  "Day t = t div msPerDay"

definition HourFromTime :: "int \<Rightarrow> int" where
  "HourFromTime t = (t div 3600000) mod 24"

definition MinFromTime :: "int \<Rightarrow> int" where
  "MinFromTime t = (t div 60000) mod 60"

definition SecFromTime :: "int \<Rightarrow> int" where
  "SecFromTime t = (t div 1000) mod 60"

definition msFromTime :: "int \<Rightarrow> int" where
  "msFromTime t = t mod 1000"

definition MakeTime :: "int \<Rightarrow> int \<Rightarrow> int \<Rightarrow> int \<Rightarrow> int" where
  "MakeTime hour m sec ms = hour * 3600000 + m * 60000 + sec * 1000 + ms"

definition MakeDate :: "int \<Rightarrow> int \<Rightarrow> int" where
  "MakeDate day time = day * msPerDay + time"

text \<open>
  The time zone, as far as a call can see it: the offset from UTC in milliseconds
  before and after one change of offset (the start or the end of daylight saving), and
  the instant of the change. A zone without a change has the same offset on both sides.
\<close>

record zone =
  offsetBefore :: int
  offsetAfter :: int
  changeAt :: int

definition fixedOffset :: "int \<Rightarrow> zone" where
  "fixedOffset tza = \<lparr> offsetBefore = tza, offsetAfter = tza, changeAt = 0 \<rparr>"

definition offsetAt :: "zone \<Rightarrow> int \<Rightarrow> int" where
  "offsetAt z t = (if t < changeAt z then offsetBefore z else offsetAfter z)"

text \<open>
  \<open>LocalTime\<close> adds the offset in force at the instant. \<open>UTC\<close> goes back from a local time
  to an instant that shows it: the earliest one when the local time occurs twice (clocks
  set back), and the one under the offset before the change when it never occurs (clocks
  set forward).
\<close>

definition LocalTime :: "zone \<Rightarrow> int \<Rightarrow> int" where
  "LocalTime z t = t + offsetAt z t"

definition UTC :: "zone \<Rightarrow> int \<Rightarrow> int" where
  "UTC z t =
     (if t - offsetBefore z < changeAt z then t - offsetBefore z
      else if changeAt z \<le> t - offsetAfter z then t - offsetAfter z
      else t - offsetBefore z)"

definition getMinutes :: "zone \<Rightarrow> int \<Rightarrow> int" where
  "getMinutes z t = MinFromTime (LocalTime z t)"

definition getSeconds :: "zone \<Rightarrow> int \<Rightarrow> int" where
  "getSeconds z t = SecFromTime (LocalTime z t)"

definition getMilliseconds :: "zone \<Rightarrow> int \<Rightarrow> int" where
  "getMilliseconds z t = msFromTime (LocalTime z t)"

text \<open>
  \<^verbatim>\<open>setMinutes(min [, sec [, ms]])\<close> and \<^verbatim>\<open>setSeconds(sec [, ms])\<close>: an argument that is
  not passed (\<open>None\<close>) keeps the field's current value. A field value outside its range
  carries into the next field through \<open>MakeTime\<close>.
\<close>

definition setMinutes :: "zone \<Rightarrow> int \<Rightarrow> int option \<Rightarrow> int option \<Rightarrow> int \<Rightarrow> int" where
  "setMinutes z m sec ms t =
     (let lt = LocalTime z t;
          s = (case sec of None \<Rightarrow> SecFromTime lt | Some v \<Rightarrow> v);
          milli = (case ms of None \<Rightarrow> msFromTime lt | Some v \<Rightarrow> v)
      in UTC z (MakeDate (Day lt) (MakeTime (HourFromTime lt) m s milli)))"

definition setSeconds :: "zone \<Rightarrow> int \<Rightarrow> int option \<Rightarrow> int \<Rightarrow> int" where
  "setSeconds z sec ms t =
     (let lt = LocalTime z t;
          milli = (case ms of None \<Rightarrow> msFromTime lt | Some v \<Rightarrow> v)
      in UTC z (MakeDate (Day lt) (MakeTime (HourFromTime lt) (MinFromTime lt) sec milli)))"

definition setMilliseconds :: "zone \<Rightarrow> int \<Rightarrow> int \<Rightarrow> int" where
  "setMilliseconds z ms t =
     (let lt = LocalTime z t
      in UTC z (MakeDate (Day lt)
           (MakeTime (HourFromTime lt) (MinFromTime lt) (SecFromTime lt) ms)))"

subsection \<open>Helpers (lines 36-60)\<close>

definition roundUpToNext30Seconds :: "zone \<Rightarrow> int \<Rightarrow> int" where
  "roundUpToNext30Seconds z date =
     (let rounded = date;
          seconds = getSeconds z rounded
      in if seconds < 30 then setSeconds z 30 (Some 0) rounded
         else setMinutes z (getMinutes z rounded + 1) (Some 0) (Some 0) rounded)"

text \<open>
  \<^verbatim>\<open>minutes % 5\<close> is \<open>minutes mod 5\<close>: \<^verbatim>\<open>getMinutes()\<close> is never negative.
\<close>

definition roundUpToNext5Minutes :: "zone \<Rightarrow> int \<Rightarrow> int" where
  "roundUpToNext5Minutes z date =
     (let rounded = date;
          minutes = getMinutes z rounded;
          remainder = minutes mod 5;
          extra = (if remainder = 0 then 5 else 5 - remainder);
          rounded = setMinutes z (minutes + extra) None None rounded;
          rounded = setSeconds z 0 None rounded;
          rounded = setMilliseconds z 0 rounded
      in rounded)"

text \<open>
  An instant on a 5-minute mark of the local clock, and the instant of a local
  wall-clock reading \<open>h:m:s\<close> on day \<open>day\<close>.
\<close>

definition on5MinuteMark :: "zone \<Rightarrow> int \<Rightarrow> bool" where
  "on5MinuteMark z t \<longleftrightarrow>
     getMinutes z t mod 5 = 0 \<and> getSeconds z t = 0 \<and> getMilliseconds z t = 0"

definition wallClock :: "zone \<Rightarrow> int \<Rightarrow> int \<Rightarrow> int \<Rightarrow> int \<Rightarrow> int" where
  "wallClock z day h m sec = UTC z (MakeDate day (MakeTime h m sec 0))"

subsection \<open>Persistence (lines 63-125)\<close>

text \<open>
  The content of \<^verbatim>\<open>uptime.json\<close> once parsed. A counter entry is \<open>None\<close> when the key
  is missing, \<^verbatim>\<open>null\<close> or not a number, which \<^verbatim>\<open>Number(..) || 0\<close> turns into 0. A
  timestamp entry is \<open>None\<close> for a missing key or \<^verbatim>\<open>null\<close>, and otherwise the instant
  that its ISO-8601 string denotes: \<^verbatim>\<open>toISOString\<close> prints a date to the millisecond
  and \<^verbatim>\<open>new Date\<close> reads that string back to the same time value. The status entry is
  \<open>None\<close> for anything that is not a boolean. The disk is \<open>None\<close> when the file is
  missing or is not JSON: \<^verbatim>\<open>readFile\<close> or \<^verbatim>\<open>JSON.parse\<close> throws.
\<close>

record ledger_file =
  file_uptimeSeconds :: "int option"
  file_downtimeSeconds :: "int option"
  file_lastStateChange :: "int option"
  file_lastStatus :: "bool option"
  file_lastOnlineTime :: "int option"

definition number_or_0 :: "int option \<Rightarrow> int" where
  "number_or_0 v = (case v of None \<Rightarrow> 0 | Some n \<Rightarrow> n)"

definition TEN_YEARS_SEC :: int where
  "TEN_YEARS_SEC = 10 * 365 * 24 * 3600"

text \<open>
  \<open>loadUptimeFromDisk disk now s\<close>: \<open>now\<close> is the reading of \<^verbatim>\<open>nowMs()\<close> at line 97 or
  105. The warnings go to the console only and are not part of the state.
\<close>

definition loadUptimeFromDisk :: "ledger_file option \<Rightarrow> int \<Rightarrow> monitor \<Rightarrow> monitor" where
  "loadUptimeFromDisk disk now s =
     (case disk of
        None \<Rightarrow>
          s\<lparr>uptimeSeconds := 0, downtimeSeconds := 0, lastStateChange := None,
            lastStatus := None, lastUpdatedAt := now\<rparr>
      | Some data \<Rightarrow>
          (let s1 = s\<lparr>uptimeSeconds := number_or_0 (file_uptimeSeconds data),
                      downtimeSeconds := number_or_0 (file_downtimeSeconds data),
                      lastStateChange := file_lastStateChange data,
                      lastStatus := file_lastStatus data,
                      lastOnlineTime := file_lastOnlineTime data\<rparr>;
               s2 = (if lastStatus s1 = Some True \<and> downtimeSeconds s1 > 0
                        \<and> lastOnlineTime s1 = None \<and> lastStateChange s1 \<noteq> None
                     then s1\<lparr>lastOnlineTime := lastStateChange s1\<rparr> else s1);
               s3 = (if uptimeSeconds s2 > TEN_YEARS_SEC * 1000
                     then s2\<lparr>uptimeSeconds := uptimeSeconds s2 div 1000\<rparr> else s2);
               s4 = (if downtimeSeconds s3 > TEN_YEARS_SEC * 1000
                     then s3\<lparr>downtimeSeconds := downtimeSeconds s3 div 1000\<rparr> else s3)
           in s4\<lparr>lastUpdatedAt := now\<rparr>))"

text \<open>
  \<open>saveUptimeToDisk ok s disk\<close> is the disk afterwards; \<open>ok\<close> says whether \<^verbatim>\<open>writeFile\<close>
  succeeded. A failed write is logged and leaves the file as it was.
\<close>

definition saveUptimeToDisk :: "bool \<Rightarrow> monitor \<Rightarrow> ledger_file option \<Rightarrow> ledger_file option" where
  "saveUptimeToDisk ok s disk =
     (let data = \<lparr> file_uptimeSeconds = Some (uptimeSeconds s),
                   file_downtimeSeconds = Some (downtimeSeconds s),
                   file_lastStateChange = lastStateChange s,
                   file_lastStatus = lastStatus s,
                   file_lastOnlineTime = lastOnlineTime s \<rparr>
      in if ok then Some data else disk)"

text \<open>The ledger: the five persisted fields of a state.\<close>

definition ledger :: "monitor \<Rightarrow> int \<times> int \<times> int option \<times> bool option \<times> int option" where
  "ledger s =
     (uptimeSeconds s, downtimeSeconds s, lastStateChange s, lastStatus s, lastOnlineTime s)"

text \<open>The unit correction of lines 82-95 on one counter.\<close>

definition unitCorrected :: "int \<Rightarrow> int" where
  "unitCorrected n = (if n > TEN_YEARS_SEC * 1000 then n div 1000 else n)"

text \<open>The backfill of lines 75-77, as a function of the saved ledger.\<close>

definition backfilled :: "monitor \<Rightarrow> int option" where
  "backfilled s =
     (if lastStatus s = Some True \<and> downtimeSeconds s > 0 \<and> lastOnlineTime s = None
         \<and> lastStateChange s \<noteq> None
      then lastStateChange s else lastOnlineTime s)"

subsection \<open>Health check (lines 161-209)\<close>

text \<open>
  What \<^verbatim>\<open>fetch\<close> does: it resolves with a response that has an HTTP status, or it
  throws an error that may carry a name. \<^verbatim>\<open>res.ok\<close> is a status from 200 to 299.
\<close>

datatype fetch_result = Responded nat | Threw "string option"

definition res_ok :: "nat \<Rightarrow> bool" where
  "res_ok code \<longleftrightarrow> 200 \<le> code \<and> code \<le> 299"

text \<open>\<^verbatim>\<open>newStatus\<close> and \<^verbatim>\<open>lastHttpStatus\<close> after lines 167-183.\<close>

definition newStatus_of :: "fetch_result \<Rightarrow> bool" where
  "newStatus_of r = (case r of Responded code \<Rightarrow> res_ok code | Threw name \<Rightarrow> False)"

definition httpStatus_of :: "fetch_result \<Rightarrow> http_status" where
  "httpStatus_of r =
     (case r of
        Responded code \<Rightarrow> StatusCode code
      | Threw None \<Rightarrow> ErrorName ''network_error''
      | Threw (Some name) \<Rightarrow> ErrorName (if name = [] then ''network_error'' else name))"

text \<open>
  The clock readings of one run of \<^verbatim>\<open>checkStatus\<close>, in the order it takes them:
  \<^verbatim>\<open>nowMs()\<close> inside \<^verbatim>\<open>updateUptimeTracker\<close>, \<^verbatim>\<open>new Date()\<close> for \<^verbatim>\<open>flipTime\<close> (read on
  a flip only), \<^verbatim>\<open>new Date()\<close> for \<^verbatim>\<open>lastCheck\<close>, and \<^verbatim>\<open>nowMs()\<close> at line 204.
\<close>

record probe_clock =
  settleNow :: int
  flipTime :: int
  checkTime :: int
  anchorNow :: int

text \<open>
  \<^verbatim>\<open>checkStatus\<close> suspends once, at \<^verbatim>\<open>await fetch\<close>. \<open>checkStatus_resume\<close> is the part
  after the await, \<open>checkStatus\<close> the whole function when nothing else runs in between.
\<close>

definition checkStatus_resume :: "probe_clock \<Rightarrow> fetch_result \<Rightarrow> monitor \<Rightarrow> monitor" where
  "checkStatus_resume ck r s =
     (let newStatus = newStatus_of r;
          s1 = s\<lparr>lastHttpStatus := Some (httpStatus_of r)\<rparr>;
          s2 = (if Some newStatus \<noteq> lastStatus s1
                then (let s' = s1\<lparr>lastStateChange := Some (flipTime ck)\<rparr>
                      in if newStatus
                         then s'\<lparr>lastOnlineTime := Some (flipTime ck), downStartTime := None\<rparr>
                         else s'\<lparr>downStartTime := Some (flipTime ck)\<rparr>)
                else s1)
      in s2\<lparr>isOnline := Some newStatus, lastStatus := Some newStatus,
            lastCheck := Some (checkTime ck), lastUpdatedAt := anchorNow ck\<rparr>)"

definition checkStatus :: "probe_clock \<Rightarrow> fetch_result \<Rightarrow> monitor \<Rightarrow> monitor" where
  "checkStatus ck r s = checkStatus_resume ck r (updateUptimeTracker (settleNow ck) s)"

text \<open>Probes one after the other, each with its clock readings and what its fetch did.\<close>

fun probes :: "(probe_clock \<times> fetch_result) list \<Rightarrow> monitor \<Rightarrow> monitor" where
  "probes [] s = s"
| "probes ((ck, r) # ps) s = probes ps (checkStatus ck r s)"

subsection \<open>Endpoints (lines 235-266)\<close>

text \<open>
  A handler takes the state and returns the state it leaves and the JSON it sends.
  Timestamps of a response are instants, as in the ledger file.
\<close>

record status_response =
  res_isOnline :: "bool option"
  res_lastOnlineTime :: "int option"
  res_downStartTime :: "int option"
  res_nextCheck :: int
  res_lastCheck :: "int option"
  res_now :: int
  res_lastHttpStatus :: "http_status option"

text \<open>
  \<open>get_status z t1 t2 s\<close>: \<open>t1\<close> is the \<^verbatim>\<open>new Date()\<close> that \<^verbatim>\<open>roundUpToNext5Minutes()\<close>
  takes by default, \<open>t2\<close> the one of the \<^verbatim>\<open>now\<close> entry. The handler assigns no variable.
\<close>

definition get_status :: "zone \<Rightarrow> int \<Rightarrow> int \<Rightarrow> monitor \<Rightarrow> monitor \<times> status_response" where
  "get_status z t1 t2 s =
     (let next = (case lastCheck s of
                    Some c \<Rightarrow> roundUpToNext5Minutes z c
                  | None \<Rightarrow> roundUpToNext5Minutes z t1)
      in (s, \<lparr> res_isOnline = isOnline s,
               res_lastOnlineTime = lastOnlineTime s,
               res_downStartTime = downStartTime s,
               res_nextCheck = next,
               res_lastCheck = lastCheck s,
               res_now = t2,
               res_lastHttpStatus = lastHttpStatus s \<rparr>))"

text \<open>
  \<^verbatim>\<open>rawPct\<close> of line 253, in exact arithmetic. The response prints it twice with
  \<^verbatim>\<open>toFixed\<close>, with 2 and with 6 decimals; the record below holds the number that both
  entries print.
\<close>

definition rawPct :: "int \<Rightarrow> int \<Rightarrow> real" where
  "rawPct up down =
     (let total = up + down
      in if total > 0 then (real_of_int up / real_of_int total) * 100 else 100)"

record uptime_response =
  res_uptimeSeconds :: int
  res_downtimeSeconds :: int
  res_rawPct :: real
  res_nextRefresh :: int
  res_lastStateChange :: "int option"
  res_lastState :: string

text \<open>
  \<open>get_uptime z now t s\<close>: \<open>now\<close> is the reading of \<^verbatim>\<open>nowMs()\<close> inside
  \<^verbatim>\<open>updateUptimeTracker\<close>, \<open>t\<close> the \<^verbatim>\<open>new Date()\<close> of \<^verbatim>\<open>roundUpToNext30Seconds()\<close>.
\<close>

definition get_uptime :: "zone \<Rightarrow> int \<Rightarrow> int \<Rightarrow> monitor \<Rightarrow> monitor \<times> uptime_response" where
  "get_uptime z now t s =
     (let s' = updateUptimeTracker now s
      in (s', \<lparr> res_uptimeSeconds = uptimeSeconds s',
                res_downtimeSeconds = downtimeSeconds s',
                res_rawPct = rawPct (uptimeSeconds s') (downtimeSeconds s'),
                res_nextRefresh = roundUpToNext30Seconds z t,
                res_lastStateChange = lastStateChange s',
                res_lastState =
                  (if lastStatus s' = Some True then ''ONLINE''
                   else if lastStatus s' = Some False then ''OFFLINE'' else ''UNKNOWN'') \<rparr>))"

subsection \<open>Runs of the server\<close>

text \<open>
  After the load at start-up the state changes in two kinds of step only: a settlement
  (an \<^verbatim>\<open>/uptime\<close> request, or \<^verbatim>\<open>checkStatus\<close> up to its await) and the rest of a
  \<^verbatim>\<open>checkStatus\<close> after its await. A probe is a \<open>Settle\<close> followed, maybe after other
  settlements, by a \<open>Resume\<close>.
\<close>

datatype event = Settle int | Resume probe_clock fetch_result

fun step :: "event \<Rightarrow> monitor \<Rightarrow> monitor" where
  "step (Settle now) s = updateUptimeTracker now s"
| "step (Resume ck r) s = checkStatus_resume ck r s"

fun run :: "event list \<Rightarrow> monitor \<Rightarrow> monitor" where
  "run [] s = s"
| "run (e # es) s = run es (step e s)"

section \<open>Settlement\<close>

lemma lastStatus_updateUptimeTracker:
  "lastStatus (updateUptimeTracker now s) = lastStatus s"
  by (simp add: updateUptimeTracker_def Let_def split: option.split)

lemma updateUptimeTracker_short:
  "lastStatus s = Some b \<Longrightarrow> now - lastUpdatedAt s < 1000 \<Longrightarrow>
   updateUptimeTracker now s = s\<lparr>lastUpdatedAt := now\<rparr>"
  by (simp add: updateUptimeTracker_def Let_def)

lemma accounted_updateUptimeTracker:
  "accounted (updateUptimeTracker now s) =
     accounted s +
     (if lastStatus s \<noteq> None \<and> 1000 \<le> now - lastUpdatedAt s
      then (now - lastUpdatedAt s) div 1000 else 0)"
  by (simp add: updateUptimeTracker_def accounted_def Let_def split: option.split)

lemma accounted_settlements:
  "lastStatus s = Some b \<Longrightarrow>
   accounted (settlements nows s) =
     accounted s + (\<Sum>d\<leftarrow>deltas nows s. if 1000 \<le> d then d div 1000 else 0)"
proof (induction nows arbitrary: s)
  case Nil
  show ?case by simp
next
  case (Cons now nows)
  have "lastStatus (updateUptimeTracker now s) = Some b"
    using Cons.prems by (simp add: lastStatus_updateUptimeTracker)
  from Cons.IH[OF this] show ?case
    using Cons.prems by (simp add: accounted_updateUptimeTracker)
qed

lemma counters_updateUptimeTracker_mono:
  "uptimeSeconds s \<le> uptimeSeconds (updateUptimeTracker now s) \<and>
   downtimeSeconds s \<le> downtimeSeconds (updateUptimeTracker now s)"
  by (auto simp add: updateUptimeTracker_def Let_def pos_imp_zdiv_nonneg_iff split: option.split)

text \<open>
  C1, as amended. When \<^verbatim>\<open>lastStatus\<close> is known and less than 1000 ms have passed since
  the anchor, \<^verbatim>\<open>updateUptimeTracker\<close> changes nothing but the anchor, which it resets to
  \<open>now\<close>: the sub-second remainder is discarded, not carried forward. Over any sequence
  of settlement calls with a known status, the sum of the two counters grows by the sum
  of \<open>floor(deltaMs / 1000)\<close> over the calls whose \<open>deltaMs\<close>, measured from the anchor as
  the calls before left it, is at least 1000.
\<close>

theorem settle_short_resets_anchor:
  assumes "lastStatus s = Some b"
  shows "(now - lastUpdatedAt s < 1000 \<longrightarrow>
            updateUptimeTracker now s = s\<lparr>lastUpdatedAt := now\<rparr>) \<and>
         accounted (settlements nows s) =
           accounted s + (\<Sum>d\<leftarrow>deltas nows s. if 1000 \<le> d then d div 1000 else 0)"
  using assms updateUptimeTracker_short[of s b now] accounted_settlements[of s b nows]
  by simp

theorem settle_short_resets_anchor_witness:
  "lastStatus ((initial 0)\<lparr>lastStatus := Some True\<rparr>) = Some True \<and>
   500 - lastUpdatedAt ((initial 0)\<lparr>lastStatus := Some True\<rparr>) < 1000 \<and>
   updateUptimeTracker 500 ((initial 0)\<lparr>lastStatus := Some True\<rparr>) =
     (initial 0)\<lparr>lastStatus := Some True, lastUpdatedAt := 500\<rparr> \<and>
   deltas [500, 2700, 3000] ((initial 0)\<lparr>lastStatus := Some True\<rparr>) = [500, 2200, 500] \<and>
   accounted (settlements [500, 2700, 3000] ((initial 0)\<lparr>lastStatus := Some True\<rparr>)) = 2"
  using settle_short_resets_anchor[of "(initial 0)\<lparr>lastStatus := Some True\<rparr>" True 500
      "[500, 2700, 3000]"]
  by (simp add: initial_def accounted_def updateUptimeTracker_def)

text \<open>
  C1 as the spec states it fails: with the status known and 500 ms elapsed, the call
  moves the anchor from 0 to 500; and four calls 500 ms apart leave both counters at 0
  although 2000 ms went by.
\<close>

theorem settle_short_keeps_anchor_counterexample:
  "lastStatus ((initial 0)\<lparr>lastStatus := Some True\<rparr>) = Some True \<and>
   500 - lastUpdatedAt ((initial 0)\<lparr>lastStatus := Some True\<rparr>) < 1000 \<and>
   lastUpdatedAt (updateUptimeTracker 500 ((initial 0)\<lparr>lastStatus := Some True\<rparr>))
     \<noteq> lastUpdatedAt ((initial 0)\<lparr>lastStatus := Some True\<rparr>) \<and>
   accounted (settlements [500, 1000, 1500, 2000] ((initial 0)\<lparr>lastStatus := Some True\<rparr>)) = 0 \<and>
   lastUpdatedAt (settlements [500, 1000, 1500, 2000] ((initial 0)\<lparr>lastStatus := Some True\<rparr>))
     = 2000"
  by (simp add: initial_def accounted_def updateUptimeTracker_def)

text \<open>
  C2. When \<^verbatim>\<open>lastStatus\<close> is known and at least 1000 ms have passed since the anchor,
  \<^verbatim>\<open>updateUptimeTracker\<close> adds \<open>deltaSec = floor((now - lastUpdatedAt) / 1000)\<close>, which is
  at least 1, to \<^verbatim>\<open>uptimeSeconds\<close> when the status is online and to \<^verbatim>\<open>downtimeSeconds\<close>
  otherwise, leaves the other counter and every other variable alone, and moves the
  anchor forward by \<open>deltaSec * 1000\<close>, so that the remainder below one second is still
  ahead of the anchor.
\<close>

theorem settle_whole_seconds:
  assumes "lastStatus s = Some b" and "1000 \<le> now - lastUpdatedAt s"
  shows "1 \<le> (now - lastUpdatedAt s) div 1000 \<and>
         updateUptimeTracker now s =
           (if b then s\<lparr>uptimeSeconds := uptimeSeconds s + (now - lastUpdatedAt s) div 1000,
                        lastUpdatedAt := lastUpdatedAt s + (now - lastUpdatedAt s) div 1000 * 1000\<rparr>
            else s\<lparr>downtimeSeconds := downtimeSeconds s + (now - lastUpdatedAt s) div 1000,
                   lastUpdatedAt := lastUpdatedAt s + (now - lastUpdatedAt s) div 1000 * 1000\<rparr>) \<and>
         now - lastUpdatedAt (updateUptimeTracker now s) = (now - lastUpdatedAt s) mod 1000"
  using assms
  by (simp add: updateUptimeTracker_def Let_def minus_mult_div_eq_mod algebra_simps)

theorem settle_whole_seconds_witness:
  "lastStatus ((initial 0)\<lparr>lastStatus := Some False\<rparr>) = Some False \<and>
   1000 \<le> 2500 - lastUpdatedAt ((initial 0)\<lparr>lastStatus := Some False\<rparr>) \<and>
   updateUptimeTracker 2500 ((initial 0)\<lparr>lastStatus := Some False\<rparr>) =
     (initial 0)\<lparr>lastStatus := Some False, downtimeSeconds := 2, lastUpdatedAt := 2000\<rparr>"
  using settle_whole_seconds[of "(initial 0)\<lparr>lastStatus := Some False\<rparr>" False 2500]
  by (simp add: initial_def)

text \<open>
  C9. No call of \<^verbatim>\<open>updateUptimeTracker\<close>, and no sequence of calls, makes
  \<^verbatim>\<open>uptimeSeconds + downtimeSeconds\<close> smaller, whatever the clock returns; when the clock
  is behind the anchor, neither counter changes.
\<close>

theorem accounted_never_decreases:
  "accounted s \<le> accounted (updateUptimeTracker now s) \<and>
   accounted s \<le> accounted (settlements nows s) \<and>
   (now < lastUpdatedAt s \<longrightarrow>
      uptimeSeconds (updateUptimeTracker now s) = uptimeSeconds s \<and>
      downtimeSeconds (updateUptimeTracker now s) = downtimeSeconds s)"
proof -
  have one: "accounted s' \<le> accounted (updateUptimeTracker t s')" for t s'
    using counters_updateUptimeTracker_mono[of s' t] by (simp add: accounted_def)
  have "accounted s \<le> accounted (settlements nows s)"
  proof (induction nows arbitrary: s)
    case Nil
    show ?case by simp
  next
    case (Cons t ts)
    have "accounted s \<le> accounted (updateUptimeTracker t s)"
      by (rule one)
    also have "\<dots> \<le> accounted (settlements ts (updateUptimeTracker t s))"
      by (rule Cons.IH)
    finally show ?case by simp
  qed
  moreover have "now < lastUpdatedAt s \<longrightarrow>
      uptimeSeconds (updateUptimeTracker now s) = uptimeSeconds s \<and>
      downtimeSeconds (updateUptimeTracker now s) = downtimeSeconds s"
    by (simp add: updateUptimeTracker_def Let_def split: option.split)
  ultimately show ?thesis
    using one by simp
qed

theorem accounted_never_decreases_witness:
  "(7::int) < lastUpdatedAt ((initial 9000)\<lparr>lastStatus := Some True, uptimeSeconds := 4\<rparr>) \<and>
   uptimeSeconds (updateUptimeTracker 7
      ((initial 9000)\<lparr>lastStatus := Some True, uptimeSeconds := 4\<rparr>)) = 4 \<and>
   downtimeSeconds (updateUptimeTracker 7
      ((initial 9000)\<lparr>lastStatus := Some True, uptimeSeconds := 4\<rparr>)) = 0"
  using accounted_never_decreases[of "(initial 9000)\<lparr>lastStatus := Some True, uptimeSeconds := 4\<rparr>"
      7 "[]"]
  by (simp add: initial_def)

section \<open>The next 5-minute mark\<close>

subsection \<open>In a zone without a change of offset\<close>

lemma LocalTime_fixedOffset: "LocalTime (fixedOffset tza) t = t + tza"
  by (simp add: LocalTime_def offsetAt_def fixedOffset_def)

lemma UTC_fixedOffset: "UTC (fixedOffset tza) t = t - tza"
  by (simp add: UTC_def fixedOffset_def)

lemma div_minutes: "(t::int) div 60000 = t div 1000 div 60"
  by (simp add: zdiv_zmult2_eq[symmetric])

lemma div_hours: "(t::int) div 3600000 = t div 60000 div 60"
  by (simp add: zdiv_zmult2_eq[symmetric])

lemma div_days: "(t::int) div 86400000 = t div 3600000 div 24"
  by (simp add: zdiv_zmult2_eq[symmetric])

lemma div_5minutes: "(t::int) div 300000 = t div 60000 div 5"
  by (simp add: zdiv_zmult2_eq[symmetric])

lemma MakeDate_Day:
  "MakeDate (Day t) (MakeTime (HourFromTime t) m sec ms) =
     t div 3600000 * 3600000 + m * 60000 + sec * 1000 + ms"
proof -
  have "t div 3600000 = 24 * (t div 3600000 div 24) + t div 3600000 mod 24"
    by simp
  then show ?thesis
    unfolding MakeDate_def MakeTime_def Day_def HourFromTime_def msPerDay_def div_days
    by linarith
qed

lemma hours_and_minutes: "t div 3600000 * 3600000 + MinFromTime t * 60000 = t div 60000 * 60000"
proof -
  have "t div 60000 = 60 * (t div 60000 div 60) + t div 60000 mod 60"
    by simp
  then show ?thesis
    unfolding MinFromTime_def div_hours by linarith
qed

lemma minutes_and_seconds: "t div 60000 * 60000 + SecFromTime t * 1000 = t div 1000 * 1000"
proof -
  have "t div 1000 = 60 * (t div 1000 div 60) + t div 1000 mod 60"
    by simp
  then show ?thesis
    unfolding SecFromTime_def div_minutes by linarith
qed

lemma seconds_and_ms: "t div 1000 * 1000 + msFromTime t = t"
  unfolding msFromTime_def by simp

lemma setMinutes_forward:
  "setMinutes (fixedOffset tza) (getMinutes (fixedOffset tza) t + e) None None t = t + e * 60000"
proof -
  let ?lt = "t + tza"
  have "?lt div 3600000 * 3600000 + (MinFromTime ?lt + e) * 60000 + SecFromTime ?lt * 1000
          + msFromTime ?lt = ?lt + e * 60000"
    using hours_and_minutes[of ?lt] minutes_and_seconds[of ?lt] seconds_and_ms[of ?lt]
    by (simp add: algebra_simps)
  then show ?thesis
    by (simp add: setMinutes_def getMinutes_def LocalTime_fixedOffset UTC_fixedOffset MakeDate_Day Let_def
        algebra_simps)
qed

lemma setSeconds_zero:
  "setSeconds (fixedOffset tza) 0 None t = (t + tza) div 60000 * 60000 + (t + tza) mod 1000 - tza"
  using hours_and_minutes[of "t + tza"]
  by (simp add: setSeconds_def LocalTime_fixedOffset UTC_fixedOffset MakeDate_Day msFromTime_def Let_def)

lemma setMilliseconds_zero:
  "setMilliseconds (fixedOffset tza) 0 t = (t + tza) div 1000 * 1000 - tza"
  using hours_and_minutes[of "t + tza"] minutes_and_seconds[of "t + tza"]
  by (simp add: setMilliseconds_def LocalTime_fixedOffset UTC_fixedOffset MakeDate_Day Let_def)

lemma whole_minute_div: "((q::int) * 60000 + x mod 1000) div 1000 = q * 60"
proof -
  have "(q * 60000 + x mod 1000) div 1000 = (x mod 1000 + (q * 60) * 1000) div 1000"
    by (simp add: algebra_simps)
  also have "\<dots> = q * 60 + (x mod 1000) div 1000"
    by (rule div_mult_self1) simp
  finally show ?thesis by simp
qed

lemma roundUpToNext5Minutes_closed:
  "roundUpToNext5Minutes (fixedOffset tza) date = ((date + tza) div 300000 + 1) * 300000 - tza"
proof -
  let ?b = "(date + tza) div 60000"
  define e where "e = (if getMinutes (fixedOffset tza) date mod 5 = 0 then 5
      else 5 - getMinutes (fixedOffset tza) date mod 5)"
  define t1 where "t1 = setMinutes (fixedOffset tza) (getMinutes (fixedOffset tza) date + e) None None date"
  define t2 where "t2 = setSeconds (fixedOffset tza) 0 None t1"
  define t3 where "t3 = setMilliseconds (fixedOffset tza) 0 t2"
  have e: "e = 5 - ?b mod 5"
    unfolding e_def getMinutes_def MinFromTime_def LocalTime_fixedOffset
    by (simp add: mod_mod_cancel)
  have t1: "t1 + tza = date + tza + e * 60000"
    unfolding t1_def by (simp add: setMinutes_forward)
  have "(t1 + tza) div 60000 = ?b + e"
    unfolding t1 by simp
  then have t2: "t2 + tza = (?b + e) * 60000 + (t1 + tza) mod 1000"
    unfolding t2_def by (simp add: setSeconds_zero)
  have t3: "t3 = (?b + e) * 60000 - tza"
    unfolding t3_def setMilliseconds_zero t2 whole_minute_div by simp
  have "roundUpToNext5Minutes (fixedOffset tza) date = t3"
    unfolding roundUpToNext5Minutes_def Let_def t3_def t2_def t1_def e_def ..
  moreover have "?b + e = (?b div 5 + 1) * 5"
    unfolding e by presburger
  ultimately show ?thesis
    by (simp add: t3 div_5minutes)
qed

lemma on5MinuteMark_iff: "on5MinuteMark (fixedOffset tza) t \<longleftrightarrow> (t + tza) mod 300000 = 0"
proof -
  let ?lt = "t + tza"
  have a: "?lt = 1000 * (?lt div 1000) + ?lt mod 1000" by simp
  have b: "?lt div 1000 = 60 * (?lt div 1000 div 60) + ?lt div 1000 mod 60" by simp
  have c: "?lt div 1000 div 60 = 5 * (?lt div 1000 div 60 div 5) + ?lt div 1000 div 60 mod 5"
    by simp
  have d: "?lt = 300000 * (?lt div 300000) + ?lt mod 300000" by simp
  have m: "?lt div 1000 div 60 mod 60 mod 5 = ?lt div 1000 div 60 mod 5"
    by (simp add: mod_mod_cancel)
  have q: "?lt div 300000 = ?lt div 1000 div 60 div 5"
    by (simp add: div_5minutes div_minutes)
  have r: "0 \<le> ?lt mod 1000" "?lt mod 1000 < 1000" "0 \<le> ?lt div 1000 mod 60"
    "?lt div 1000 mod 60 < 60" "0 \<le> ?lt div 1000 div 60 mod 5" "?lt div 1000 div 60 mod 5 < 5"
    "0 \<le> ?lt mod 300000" "?lt mod 300000 < 300000"
    by simp_all
  show ?thesis
    unfolding on5MinuteMark_def getMinutes_def getSeconds_def getMilliseconds_def
      MinFromTime_def SecFromTime_def msFromTime_def LocalTime_fixedOffset div_minutes m
    using a b c d q r by (smt (verit, ccfv_threshold))
qed

lemma next_mark_least:
  assumes "date < u" and "(u + tza) mod 300000 = 0"
  shows "((date + tza) div 300000 + 1) * 300000 - tza \<le> (u::int)"
proof -
  have u: "u + tza = (u + tza) div 300000 * 300000"
    using assms(2) div_mult_mod_eq[of "u + tza" 300000] by simp
  have "(date + tza) div 300000 * 300000 \<le> date + tza"
    by (simp add: mult.commute)
  have "(date + tza) div 300000 \<le> (u + tza) div 300000"
    using assms(1) by (simp add: zdiv_mono1)
  moreover have "(date + tza) div 300000 \<noteq> (u + tza) div 300000"
  proof
    assume "(date + tza) div 300000 = (u + tza) div 300000"
    then have "u + tza = (date + tza) div 300000 * 300000"
      using u by simp
    also have "\<dots> \<le> date + tza"
      by (simp add: mult.commute)
    finally show False using assms(1) by simp
  qed
  ultimately have "(date + tza) div 300000 + 1 \<le> (u + tza) div 300000"
    by simp
  then have "((date + tza) div 300000 + 1) * 300000 \<le> (u + tza) div 300000 * 300000"
    by simp
  then show ?thesis using u by simp
qed

lemma next_mark_after: "(date::int) < ((date + tza) div 300000 + 1) * 300000 - tza"
proof -
  have "date + tza = 300000 * ((date + tza) div 300000) + (date + tza) mod 300000"
    by simp
  moreover have "(date + tza) mod 300000 < 300000"
    by simp
  moreover have "((date + tza) div 300000 + 1) * 300000 = 300000 * ((date + tza) div 300000) + 300000"
    by simp
  ultimately show ?thesis by linarith
qed

lemma wallClock_local: "wallClock (fixedOffset tza) day h m sec + tza = day * 86400000 + MakeTime h m sec 0"
  by (simp add: wallClock_def UTC_fixedOffset MakeDate_def msPerDay_def)

lemma day_offset_div: "(day * 86400000 + x) div 300000 = day * 288 + x div (300000::int)"
proof -
  have "(day * 86400000 + x) div 300000 = (x + (day * 288) * 300000) div 300000"
    by (simp add: algebra_simps)
  also have "\<dots> = day * 288 + x div 300000"
    by (rule div_mult_self1) simp
  finally show ?thesis .
qed

lemma roundUpToNext5Minutes_wallClock:
  "roundUpToNext5Minutes (fixedOffset tza) (wallClock (fixedOffset tza) day h m sec) =
     wallClock (fixedOffset tza) day 0 ((MakeTime h m sec 0 div 300000 + 1) * 5) 0"
  by (simp add: roundUpToNext5Minutes_closed wallClock_local day_offset_div)
    (simp add: wallClock_def UTC_fixedOffset MakeDate_def MakeTime_def msPerDay_def)

text \<open>
  Where the offset of the zone never changes, \<^verbatim>\<open>roundUpToNext5Minutes\<close> returns an
  instant strictly after its argument, on a 5-minute mark of the local clock, and no
  later than any other such instant after the argument. On any day, 10:03:15 gives
  10:05:00, 10:07:31 gives 10:10:00 and 10:05:00 gives 10:10:00.
\<close>

lemma roundUpToNext5Minutes_fixedOffset:
  fixes tza :: int
  defines "z \<equiv> fixedOffset tza"
  shows "date < roundUpToNext5Minutes z date \<and>
         on5MinuteMark z (roundUpToNext5Minutes z date) \<and>
         (\<forall>u. date < u \<and> on5MinuteMark z u \<longrightarrow> roundUpToNext5Minutes z date \<le> u) \<and>
         roundUpToNext5Minutes z (wallClock z day 10 3 15) = wallClock z day 10 5 0 \<and>
         roundUpToNext5Minutes z (wallClock z day 10 7 31) = wallClock z day 10 10 0 \<and>
         roundUpToNext5Minutes z (wallClock z day 10 5 0) = wallClock z day 10 10 0"
proof -
  have "on5MinuteMark z (roundUpToNext5Minutes z date)"
    unfolding z_def on5MinuteMark_iff roundUpToNext5Minutes_closed by simp
  moreover have "\<forall>u. date < u \<and> on5MinuteMark z u \<longrightarrow> roundUpToNext5Minutes z date \<le> u"
    unfolding z_def on5MinuteMark_iff roundUpToNext5Minutes_closed
    by (intro allI impI, elim conjE, rule next_mark_least)
  moreover have "date < roundUpToNext5Minutes z date"
    unfolding z_def roundUpToNext5Minutes_closed by (rule next_mark_after)
  moreover have "roundUpToNext5Minutes z (wallClock z day 10 3 15) = wallClock z day 10 5 0"
    "roundUpToNext5Minutes z (wallClock z day 10 7 31) = wallClock z day 10 10 0"
    "roundUpToNext5Minutes z (wallClock z day 10 5 0) = wallClock z day 10 10 0"
    unfolding z_def
    by (simp_all add: roundUpToNext5Minutes_wallClock MakeTime_def)
      (simp_all add: wallClock_def MakeTime_def)
  ultimately show ?thesis by simp
qed

subsection \<open>Across the end of daylight saving\<close>

text \<open>
  C5. The code at an input where the claim fails. The server runs on New York time; on
  1 November 2026 the clocks there go from 02:00 back to 01:00, at 06:00 UTC. Called at
  05:57 UTC (01:57 local), \<^verbatim>\<open>roundUpToNext5Minutes\<close> asks \<^verbatim>\<open>setMinutes\<close> for minute 60 of
  hour 1, that is 02:00 local, which the clock shows at 07:00 UTC only. The result is
  07:00 UTC, although 06:00 UTC (01:00 local) is a 5-minute mark after the argument and
  an hour earlier.
\<close>

theorem roundUpToNext5Minutes_skips_marks_at_fall_back:
  "roundUpToNext5Minutes
     \<lparr>offsetBefore = - 14400000, offsetAfter = - 18000000, changeAt = 1793512800000\<rparr>
     1793512620000 = 1793516400000 \<and>
   (1793512620000::int) < 1793512800000 \<and>
   on5MinuteMark
     \<lparr>offsetBefore = - 14400000, offsetAfter = - 18000000, changeAt = 1793512800000\<rparr>
     1793512800000 \<and>
   (1793512800000::int) < 1793516400000"
  by code_simp

section \<open>Probes and state flips\<close>

lemma transitions_updateUptimeTracker:
  "lastStateChange (updateUptimeTracker now s) = lastStateChange s"
  "lastOnlineTime (updateUptimeTracker now s) = lastOnlineTime s"
  "downStartTime (updateUptimeTracker now s) = downStartTime s"
  "isOnline (updateUptimeTracker now s) = isOnline s"
  by (simp_all add: updateUptimeTracker_def Let_def split: option.split)

lemma transitions_settlements:
  "lastStateChange (settlements nows s) = lastStateChange s \<and>
   lastOnlineTime (settlements nows s) = lastOnlineTime s \<and>
   lastStatus (settlements nows s) = lastStatus s"
  by (induction nows arbitrary: s)
    (simp_all add: transitions_updateUptimeTracker lastStatus_updateUptimeTracker)

lemma lastStateChange_resume:
  "lastStateChange (checkStatus_resume ck r s) =
     (if Some (newStatus_of r) \<noteq> lastStatus s then Some (flipTime ck) else lastStateChange s)"
  by (simp add: checkStatus_resume_def Let_def)

lemma lastOnlineTime_resume:
  "lastOnlineTime (checkStatus_resume ck r s) =
     (if Some (newStatus_of r) \<noteq> lastStatus s \<and> newStatus_of r then Some (flipTime ck)
      else lastOnlineTime s)"
  by (auto simp add: checkStatus_resume_def Let_def)

lemma downStartTime_resume:
  "downStartTime (checkStatus_resume ck r s) =
     (if Some (newStatus_of r) \<noteq> lastStatus s
      then (if newStatus_of r then None else Some (flipTime ck))
      else downStartTime s)"
  by (simp add: checkStatus_resume_def Let_def)

lemma status_resume:
  "lastStatus (checkStatus_resume ck r s) = Some (newStatus_of r)"
  "isOnline (checkStatus_resume ck r s) = Some (newStatus_of r)"
  by (simp_all add: checkStatus_resume_def Let_def)

lemma counters_resume:
  "uptimeSeconds (checkStatus_resume ck r s) = uptimeSeconds s"
  "downtimeSeconds (checkStatus_resume ck r s) = downtimeSeconds s"
  by (simp_all add: checkStatus_resume_def Let_def)

lemma lastStateChange_checkStatus:
  "lastStateChange (checkStatus ck r s) =
     (if Some (newStatus_of r) \<noteq> lastStatus s then Some (flipTime ck) else lastStateChange s)"
  by (simp add: checkStatus_def lastStateChange_resume lastStatus_updateUptimeTracker
      transitions_updateUptimeTracker)

lemma lastStatus_checkStatus: "lastStatus (checkStatus ck r s) = Some (newStatus_of r)"
  by (simp add: checkStatus_def status_resume)

lemma lastStateChange_probes_same:
  "lastStatus s = Some b \<Longrightarrow> \<forall>p\<in>set ps. newStatus_of (snd p) = b \<Longrightarrow>
   lastStateChange (probes ps s) = lastStateChange s"
proof (induction ps arbitrary: s)
  case Nil
  show ?case by simp
next
  case (Cons p ps)
  obtain ck r where p: "p = (ck, r)" by (cases p)
  with Cons.prems have r: "newStatus_of r = b" by simp
  have "lastStateChange (probes ps (checkStatus ck r s)) = lastStateChange (checkStatus ck r s)"
    using Cons.prems r by (intro Cons.IH) (simp_all add: lastStatus_checkStatus)
  then show ?case
    using Cons.prems(1) r by (simp add: p lastStateChange_checkStatus)
qed

text \<open>
  C3. A probe assigns \<^verbatim>\<open>lastStateChange\<close> (the flip time) exactly when the status it
  classifies differs from \<^verbatim>\<open>lastStatus\<close> as the probe before left it, and keeps the old
  value otherwise. After a probe, any number of further probes with the same
  classification leave \<^verbatim>\<open>lastStateChange\<close> as the first of them set or kept it.
\<close>

theorem lastStateChange_only_on_flip:
  "lastStateChange (checkStatus ck r s) =
     (if Some (newStatus_of r) \<noteq> lastStatus s then Some (flipTime ck) else lastStateChange s) \<and>
   ((\<forall>p\<in>set ps. newStatus_of (snd p) = newStatus_of r) \<longrightarrow>
      lastStateChange (probes ps (checkStatus ck r s)) = lastStateChange (checkStatus ck r s))"
  using lastStateChange_probes_same[of "checkStatus ck r s" "newStatus_of r" ps]
  by (simp add: lastStateChange_checkStatus lastStatus_checkStatus)

theorem lastStateChange_only_on_flip_witness:
  "newStatus_of (Responded 204) = newStatus_of (Responded 200) \<and>
   Some (newStatus_of (Responded 200)) \<noteq> lastStatus (initial 0) \<and>
   lastStateChange
     (probes [(\<lparr>settleNow = 300000, flipTime = 300400, checkTime = 300400, anchorNow = 300400\<rparr>,
               Responded 204),
              (\<lparr>settleNow = 600000, flipTime = 600100, checkTime = 600100, anchorNow = 600100\<rparr>,
               Responded 200)]
        (checkStatus \<lparr>settleNow = 10, flipTime = 250, checkTime = 250, anchorNow = 251\<rparr>
           (Responded 200) (initial 0))) = Some 250"
proof -
  have same: "\<forall>p\<in>set [(\<lparr>settleNow = 300000, flipTime = 300400, checkTime = 300400, anchorNow = 300400\<rparr>,
                 Responded 204),
                (\<lparr>settleNow = 600000, flipTime = 600100, checkTime = 600100, anchorNow = 600100\<rparr>,
                 Responded 200)].
      newStatus_of (snd p) = newStatus_of (Responded 200)"
    by (simp add: newStatus_of_def res_ok_def)
  have first: "Some (newStatus_of (Responded 200)) \<noteq> lastStatus (initial 0)"
    by (simp add: initial_def)
  from lastStateChange_only_on_flip[of
      "\<lparr>settleNow = 10, flipTime = 250, checkTime = 250, anchorNow = 251\<rparr>" "Responded 200"
      "initial 0"
      "[(\<lparr>settleNow = 300000, flipTime = 300400, checkTime = 300400, anchorNow = 300400\<rparr>,
         Responded 204),
        (\<lparr>settleNow = 600000, flipTime = 600100, checkTime = 600100, anchorNow = 600100\<rparr>,
         Responded 200)]"] same first
  show ?thesis by (simp add: newStatus_of_def res_ok_def)
qed


lemma lastOnlineTime_checkStatus:
  "lastOnlineTime (checkStatus ck r s) =
     (if Some (newStatus_of r) \<noteq> lastStatus s \<and> newStatus_of r then Some (flipTime ck)
      else lastOnlineTime s)"
  by (auto simp add: checkStatus_def lastOnlineTime_resume lastStatus_updateUptimeTracker
      transitions_updateUptimeTracker)

lemma loaded_fields:
  "lastStatus (loadUptimeFromDisk (Some data) now s) = file_lastStatus data"
  "lastStateChange (loadUptimeFromDisk (Some data) now s) = file_lastStateChange data"
  "lastOnlineTime (loadUptimeFromDisk (Some data) now s) =
     (if file_lastStatus data = Some True \<and> number_or_0 (file_downtimeSeconds data) > 0
         \<and> file_lastOnlineTime data = None \<and> file_lastStateChange data \<noteq> None
      then file_lastStateChange data else file_lastOnlineTime data)"
  "uptimeSeconds (loadUptimeFromDisk (Some data) now s) =
     unitCorrected (number_or_0 (file_uptimeSeconds data))"
  "downtimeSeconds (loadUptimeFromDisk (Some data) now s) =
     unitCorrected (number_or_0 (file_downtimeSeconds data))"
  "downStartTime (loadUptimeFromDisk disk now s) = downStartTime s"
  "isOnline (loadUptimeFromDisk disk now s) = isOnline s"
  by (simp_all add: loadUptimeFromDisk_def Let_def unitCorrected_def split: option.split)

text \<open>
  C10. When the file loaded at start-up holds \<^verbatim>\<open>lastStatus = b\<close> and the first probe
  after the load (with any settlements by \<^verbatim>\<open>/uptime\<close> requests in between) classifies the
  endpoint as \<open>b\<close> too, the probe leaves \<^verbatim>\<open>lastStateChange\<close> and \<^verbatim>\<open>lastOnlineTime\<close>
  as the load set them: \<^verbatim>\<open>lastStateChange\<close> as in the file, \<^verbatim>\<open>lastOnlineTime\<close> as in the
  file or as backfilled by lines 75-77.
\<close>

theorem restart_same_status_no_flip:
  assumes "file_lastStatus data = Some b" and "newStatus_of r = b"
  shows "lastStateChange (checkStatus ck r (settlements nows (loadUptimeFromDisk (Some data) now s)))
           = lastStateChange (loadUptimeFromDisk (Some data) now s) \<and>
         lastOnlineTime (checkStatus ck r (settlements nows (loadUptimeFromDisk (Some data) now s)))
           = lastOnlineTime (loadUptimeFromDisk (Some data) now s) \<and>
         lastStateChange (loadUptimeFromDisk (Some data) now s) = file_lastStateChange data \<and>
         lastOnlineTime (loadUptimeFromDisk (Some data) now s) =
           (if b \<and> number_or_0 (file_downtimeSeconds data) > 0
               \<and> file_lastOnlineTime data = None \<and> file_lastStateChange data \<noteq> None
            then file_lastStateChange data else file_lastOnlineTime data)"
  using assms
  by (simp add: lastStateChange_checkStatus lastOnlineTime_checkStatus transitions_settlements
      loaded_fields)

theorem restart_same_status_no_flip_witness:
  "file_lastStatus \<lparr>file_uptimeSeconds = Some 120, file_downtimeSeconds = Some 60,
      file_lastStateChange = Some 5000, file_lastStatus = Some False,
      file_lastOnlineTime = Some 2000\<rparr> = Some False \<and>
   newStatus_of (Responded 503) = False \<and>
   lastStateChange (checkStatus \<lparr>settleNow = 300000, flipTime = 300200, checkTime = 300200,
        anchorNow = 300201\<rparr> (Responded 503)
      (settlements [200000] (loadUptimeFromDisk
         (Some \<lparr>file_uptimeSeconds = Some 120, file_downtimeSeconds = Some 60,
            file_lastStateChange = Some 5000, file_lastStatus = Some False,
            file_lastOnlineTime = Some 2000\<rparr>) 100000 (initial 99000)))) = Some 5000 \<and>
   lastOnlineTime (checkStatus \<lparr>settleNow = 300000, flipTime = 300200, checkTime = 300200,
        anchorNow = 300201\<rparr> (Responded 503)
      (settlements [200000] (loadUptimeFromDisk
         (Some \<lparr>file_uptimeSeconds = Some 120, file_downtimeSeconds = Some 60,
            file_lastStateChange = Some 5000, file_lastStatus = Some False,
            file_lastOnlineTime = Some 2000\<rparr>) 100000 (initial 99000)))) = Some 2000"
proof -
  have a: "file_lastStatus \<lparr>file_uptimeSeconds = Some 120, file_downtimeSeconds = Some 60,
      file_lastStateChange = Some 5000, file_lastStatus = Some False,
      file_lastOnlineTime = Some 2000\<rparr> = Some False"
    by simp
  have b: "newStatus_of (Responded 503) = False"
    by (simp add: newStatus_of_def res_ok_def)
  from restart_same_status_no_flip[OF a b,
      of "\<lparr>settleNow = 300000, flipTime = 300200, checkTime = 300200, anchorNow = 300201\<rparr>"
        "[200000]" 100000 "initial 99000"] a b
  show ?thesis by simp
qed

text \<open>
  C4. The code at an input where the claimed invariant fails: the server starts, loads a
  file whose \<^verbatim>\<open>lastStatus\<close> is \<^verbatim>\<open>false\<close>, and its first probe throws. No flip is
  detected, so the status is offline and \<^verbatim>\<open>downStartTime\<close> is still \<^verbatim>\<open>null\<close>.
\<close>

theorem offline_after_restart_without_downStartTime:
  "isOnline (checkStatus \<lparr>settleNow = 300000, flipTime = 300200, checkTime = 300200,
        anchorNow = 300201\<rparr> (Threw (Some ''FetchError''))
      (loadUptimeFromDisk
         (Some \<lparr>file_uptimeSeconds = Some 120, file_downtimeSeconds = Some 60,
            file_lastStateChange = Some 5000, file_lastStatus = Some False,
            file_lastOnlineTime = Some 2000\<rparr>) 100000 (initial 99000))) = Some False \<and>
   downStartTime (checkStatus \<lparr>settleNow = 300000, flipTime = 300200, checkTime = 300200,
        anchorNow = 300201\<rparr> (Threw (Some ''FetchError''))
      (loadUptimeFromDisk
         (Some \<lparr>file_uptimeSeconds = Some 120, file_downtimeSeconds = Some 60,
            file_lastStateChange = Some 5000, file_lastStatus = Some False,
            file_lastOnlineTime = Some 2000\<rparr>) 100000 (initial 99000))) = None"
  by (simp add: checkStatus_def checkStatus_resume_def updateUptimeTracker_def
      loadUptimeFromDisk_def initial_def newStatus_of_def Let_def number_or_0_def
      TEN_YEARS_SEC_def)

text \<open>
  The other half holds in every state the server reaches after its load:
  \<^verbatim>\<open>downStartTime\<close> is set only while the status is offline.
\<close>

lemma downStartTime_step:
  "downStartTime s \<noteq> None \<longrightarrow> isOnline s = Some False \<and> lastStatus s = Some False \<Longrightarrow>
   downStartTime (step e s) \<noteq> None \<longrightarrow>
     isOnline (step e s) = Some False \<and> lastStatus (step e s) = Some False"
  by (cases e)
    (auto simp add: transitions_updateUptimeTracker lastStatus_updateUptimeTracker
      downStartTime_resume status_resume split: if_splits)

lemma downStartTime_run:
  "downStartTime s \<noteq> None \<longrightarrow> isOnline s = Some False \<and> lastStatus s = Some False \<Longrightarrow>
   downStartTime (run es s) \<noteq> None \<longrightarrow>
     isOnline (run es s) = Some False \<and> lastStatus (run es s) = Some False"
proof (induction es arbitrary: s)
  case Nil
  then show ?case by simp
next
  case (Cons e es)
  from downStartTime_step[OF Cons.prems] show ?case
    by (simp add: Cons.IH)
qed

lemma downStartTime_only_when_offline:
  "downStartTime (run es (loadUptimeFromDisk disk t1 (initial t0))) \<noteq> None \<Longrightarrow>
   isOnline (run es (loadUptimeFromDisk disk t1 (initial t0))) = Some False"
  using downStartTime_run[of "loadUptimeFromDisk disk t1 (initial t0)" es]
  by (simp add: loaded_fields initial_def)

section \<open>Save and load\<close>

text \<open>What a successful save followed by a load does to the ledger of any state.\<close>

lemma ledger_save_load:
  "ledger (loadUptimeFromDisk (saveUptimeToDisk True s disk) now s') =
     (unitCorrected (uptimeSeconds s), unitCorrected (downtimeSeconds s), lastStateChange s,
      lastStatus s, backfilled s)"
  by (simp add: ledger_def saveUptimeToDisk_def loaded_fields number_or_0_def backfilled_def)

text \<open>
  The backfill of lines 75-77 is for files written by hand or by an older version. In a
  state that the server reaches from its load, an online status with downtime on the
  counter always has its \<^verbatim>\<open>lastOnlineTime\<close>, so the backfill of a reload finds nothing
  to do.
\<close>

lemma downtime_while_online:
  "lastStatus s = Some True \<Longrightarrow>
   downtimeSeconds (updateUptimeTracker now s) = downtimeSeconds s"
  by (simp add: updateUptimeTracker_def Let_def)

lemma backfilled_step:
  "backfilled s = lastOnlineTime s \<Longrightarrow> backfilled (step e s) = lastOnlineTime (step e s)"
  by (cases e)
    (auto simp add: backfilled_def transitions_updateUptimeTracker lastStatus_updateUptimeTracker
      downtime_while_online lastOnlineTime_resume lastStateChange_resume status_resume
      counters_resume split: if_splits)

lemma backfilled_run:
  "backfilled s = lastOnlineTime s \<Longrightarrow> backfilled (run es s) = lastOnlineTime (run es s)"
  by (induction es arbitrary: s) (simp_all add: backfilled_step)

lemma unitCorrected_pos: "0 < unitCorrected n \<Longrightarrow> 0 < n"
  by (simp add: unitCorrected_def TEN_YEARS_SEC_def split: if_splits)

lemma backfilled_load:
  "backfilled (loadUptimeFromDisk disk now s) = lastOnlineTime (loadUptimeFromDisk disk now s)"
proof (cases disk)
  case None
  then show ?thesis by (simp add: backfilled_def loadUptimeFromDisk_def)
next
  case (Some data)
  show ?thesis
    unfolding Some backfilled_def loaded_fields
    using unitCorrected_pos[of "number_or_0 (file_downtimeSeconds data)"]
    by auto
qed

text \<open>
  C6. For every ledger that the server holds (in any state it reaches from its load at
  start-up, by settlements and probes), a successful save followed by a load yields the
  same five fields, except that a counter above \<open>TEN_YEARS_SEC * 1000\<close> comes back
  divided by 1000 and rounded down; 999999999999 comes back as 999999999. With both
  counters at or below that bound the ledger comes back unchanged.
\<close>

theorem save_load_roundtrip:
  assumes "s = run es (loadUptimeFromDisk disk0 t1 (initial t0))"
  shows "ledger (loadUptimeFromDisk (saveUptimeToDisk True s disk) now s') =
           (unitCorrected (uptimeSeconds s), unitCorrected (downtimeSeconds s),
            lastStateChange s, lastStatus s, lastOnlineTime s) \<and>
         (uptimeSeconds s \<le> TEN_YEARS_SEC * 1000 \<and> downtimeSeconds s \<le> TEN_YEARS_SEC * 1000
            \<longrightarrow> ledger (loadUptimeFromDisk (saveUptimeToDisk True s disk) now s') = ledger s) \<and>
         unitCorrected 999999999999 = 999999999"
proof -
  have "backfilled s = lastOnlineTime s"
    unfolding assms by (intro backfilled_run backfilled_load)
  then have "ledger (loadUptimeFromDisk (saveUptimeToDisk True s disk) now s') =
      (unitCorrected (uptimeSeconds s), unitCorrected (downtimeSeconds s),
       lastStateChange s, lastStatus s, lastOnlineTime s)"
    by (simp add: ledger_save_load)
  moreover have "unitCorrected 999999999999 = 999999999"
    by (simp add: unitCorrected_def TEN_YEARS_SEC_def)
  ultimately show ?thesis
    by (simp add: ledger_def unitCorrected_def)
qed

text \<open>
  A run that gets there: the file says online with nothing counted, the load is at
  instant 0, and one settlement at instant 999999999999000 credits 999999999999 seconds.
  Saved and loaded again, the counter is 999999999.
\<close>

theorem save_load_roundtrip_witness:
  "ledger (run [Settle 999999999999000]
      (loadUptimeFromDisk
         (Some \<lparr>file_uptimeSeconds = Some 0, file_downtimeSeconds = Some 65,
            file_lastStateChange = Some 7000, file_lastStatus = Some True,
            file_lastOnlineTime = Some 7000\<rparr>) 0 (initial 0))) =
     (999999999999, 65, Some 7000, Some True, Some 7000) \<and>
   ledger (loadUptimeFromDisk
      (saveUptimeToDisk True
         (run [Settle 999999999999000]
            (loadUptimeFromDisk
               (Some \<lparr>file_uptimeSeconds = Some 0, file_downtimeSeconds = Some 65,
                  file_lastStateChange = Some 7000, file_lastStatus = Some True,
                  file_lastOnlineTime = Some 7000\<rparr>) 0 (initial 0)))
         None) 10 (initial 9)) =
     (999999999, 65, Some 7000, Some True, Some 7000)"
proof -
  have reached: "ledger (run [Settle 999999999999000]
      (loadUptimeFromDisk
         (Some \<lparr>file_uptimeSeconds = Some 0, file_downtimeSeconds = Some 65,
            file_lastStateChange = Some 7000, file_lastStatus = Some True,
            file_lastOnlineTime = Some 7000\<rparr>) 0 (initial 0))) =
     (999999999999, 65, Some 7000, Some True, Some 7000)"
    by (simp add: ledger_def loadUptimeFromDisk_def updateUptimeTracker_def initial_def
        number_or_0_def TEN_YEARS_SEC_def Let_def)
  from save_load_roundtrip[OF refl, of "[Settle 999999999999000]"
      "Some \<lparr>file_uptimeSeconds = Some 0, file_downtimeSeconds = Some 65,
         file_lastStateChange = Some 7000, file_lastStatus = Some True,
         file_lastOnlineTime = Some 7000\<rparr>" 0 0 None 10 "initial 9"] reached
  show ?thesis
    by (simp add: ledger_def unitCorrected_def TEN_YEARS_SEC_def)
qed

section \<open>The endpoints\<close>

text \<open>
  C7, as amended. The \<^verbatim>\<open>/uptime\<close> handler runs \<^verbatim>\<open>updateUptimeTracker\<close> first and computes
  its counters and percentage from the settled state, which it leaves behind. The
  \<^verbatim>\<open>/status\<close> handler runs no settlement: it answers from the variables as they are and
  leaves the state as it found it.
\<close>

theorem uptime_query_settles_first:
  "fst (get_uptime z now t s) = updateUptimeTracker now s \<and>
   res_uptimeSeconds (snd (get_uptime z now t s)) = uptimeSeconds (updateUptimeTracker now s) \<and>
   res_downtimeSeconds (snd (get_uptime z now t s)) =
     downtimeSeconds (updateUptimeTracker now s) \<and>
   res_rawPct (snd (get_uptime z now t s)) =
     rawPct (uptimeSeconds (updateUptimeTracker now s))
       (downtimeSeconds (updateUptimeTracker now s)) \<and>
   fst (get_status z t1 t2 s) = s"
  by (simp add: get_uptime_def get_status_def Let_def)

text \<open>
  C7 as the spec states it fails for \<^verbatim>\<open>/status\<close>: five seconds after the anchor, with
  the status online, a settlement would credit 5 seconds; the state after the request
  still has none.
\<close>

theorem status_query_settles_counterexample:
  "fst (get_status (fixedOffset 0) 5000 5000 ((initial 0)\<lparr>lastStatus := Some True\<rparr>))
     \<noteq> updateUptimeTracker 5000 ((initial 0)\<lparr>lastStatus := Some True\<rparr>) \<and>
   uptimeSeconds (fst (get_status (fixedOffset 0) 5000 5000 ((initial 0)\<lparr>lastStatus := Some True\<rparr>))) = 0 \<and>
   uptimeSeconds (updateUptimeTracker 5000 ((initial 0)\<lparr>lastStatus := Some True\<rparr>)) = 5"
proof -
  have a: "uptimeSeconds (fst (get_status (fixedOffset 0) 5000 5000 ((initial 0)\<lparr>lastStatus := Some True\<rparr>))) = 0"
    by (simp add: get_status_def Let_def initial_def)
  have b: "uptimeSeconds (updateUptimeTracker 5000 ((initial 0)\<lparr>lastStatus := Some True\<rparr>)) = 5"
    by (simp add: updateUptimeTracker_def initial_def)
  from a b have "fst (get_status (fixedOffset 0) 5000 5000 ((initial 0)\<lparr>lastStatus := Some True\<rparr>))
     \<noteq> updateUptimeTracker 5000 ((initial 0)\<lparr>lastStatus := Some True\<rparr>)"
    by auto
  with a b show ?thesis by simp
qed

lemma rawPct_nonneg:
  "0 \<le> up \<Longrightarrow> 0 \<le> down \<Longrightarrow>
   rawPct up down =
     (if up = 0 \<and> down = 0 then 100 else real_of_int up / real_of_int (up + down) * 100)"
  by (auto simp add: rawPct_def Let_def)

lemma counters_nonneg_updateUptimeTracker:
  "0 \<le> uptimeSeconds s \<Longrightarrow> 0 \<le> downtimeSeconds s \<Longrightarrow>
   0 \<le> uptimeSeconds (updateUptimeTracker now s) \<and>
   0 \<le> downtimeSeconds (updateUptimeTracker now s)"
  using counters_updateUptimeTracker_mono[of s now] by linarith

text \<open>
  C8. With counters that are not negative, as they are in every ledger the server
  builds, the percentage of the \<^verbatim>\<open>/uptime\<close> response is 100 when both counters of the
  response are zero (the branch without the division), and
  \<open>uptimeSeconds / (uptimeSeconds + downtimeSeconds) * 100\<close> otherwise.
\<close>

theorem uptime_percentage:
  assumes "0 \<le> uptimeSeconds s" and "0 \<le> downtimeSeconds s"
  shows "(let r = snd (get_uptime z now t s) in
            res_rawPct r =
              (if res_uptimeSeconds r = 0 \<and> res_downtimeSeconds r = 0 then 100
               else real_of_int (res_uptimeSeconds r)
                      / real_of_int (res_uptimeSeconds r + res_downtimeSeconds r) * 100)) \<and>
         rawPct 0 0 = 100"
proof -
  have "rawPct 0 0 = 100"
    by (simp add: rawPct_def)
  moreover have "rawPct (uptimeSeconds (updateUptimeTracker now s))
       (downtimeSeconds (updateUptimeTracker now s)) =
     (if uptimeSeconds (updateUptimeTracker now s) = 0
         \<and> downtimeSeconds (updateUptimeTracker now s) = 0 then 100
      else real_of_int (uptimeSeconds (updateUptimeTracker now s))
             / real_of_int (uptimeSeconds (updateUptimeTracker now s)
                 + downtimeSeconds (updateUptimeTracker now s)) * 100)"
    using counters_nonneg_updateUptimeTracker[OF assms, of now]
    by (intro rawPct_nonneg) simp_all
  ultimately show ?thesis
    by (simp add: get_uptime_def Let_def)
qed

theorem uptime_percentage_witness:
  "(0::int) \<le> uptimeSeconds ((initial 0)\<lparr>lastStatus := Some True, uptimeSeconds := 1,
       downtimeSeconds := 1\<rparr>) \<and>
   (0::int) \<le> downtimeSeconds ((initial 0)\<lparr>lastStatus := Some True, uptimeSeconds := 1,
       downtimeSeconds := 1\<rparr>) \<and>
   res_rawPct (snd (get_uptime (fixedOffset 0) 2000 2000
      ((initial 0)\<lparr>lastStatus := Some True, uptimeSeconds := 1, downtimeSeconds := 1\<rparr>))) = 75 \<and>
   res_rawPct (snd (get_uptime (fixedOffset 0) 2000 2000 (initial 0))) = 100"
  using uptime_percentage[of "(initial 0)\<lparr>lastStatus := Some True, uptimeSeconds := 1,
       downtimeSeconds := 1\<rparr>" "fixedOffset 0" 2000 2000]
    uptime_percentage[of "initial 0" "fixedOffset 0" 2000 2000]
  by (simp add: initial_def get_uptime_def updateUptimeTracker_def Let_def)

text \<open>The counters stay non-negative from a fresh start or a file with such counters.\<close>

lemma counters_nonneg_run:
  "0 \<le> uptimeSeconds s \<and> 0 \<le> downtimeSeconds s \<Longrightarrow>
   0 \<le> uptimeSeconds (run es s) \<and> 0 \<le> downtimeSeconds (run es s)"
proof (induction es arbitrary: s)
  case Nil
  then show ?case by simp
next
  case (Cons e es)
  have "0 \<le> uptimeSeconds (step e s) \<and> 0 \<le> downtimeSeconds (step e s)"
    using Cons.prems counters_nonneg_updateUptimeTracker[of s]
    by (cases e) (simp_all add: counters_resume)
  from Cons.IH[OF this] show ?case by simp
qed

lemma counters_nonneg_load:
  "0 \<le> number_or_0 (file_uptimeSeconds data) \<Longrightarrow> 0 \<le> number_or_0 (file_downtimeSeconds data) \<Longrightarrow>
   0 \<le> uptimeSeconds (loadUptimeFromDisk (Some data) now s) \<and>
   0 \<le> downtimeSeconds (loadUptimeFromDisk (Some data) now s)"
  by (simp add: loaded_fields unitCorrected_def pos_imp_zdiv_nonneg_iff)

lemma counters_fresh_start:
  "uptimeSeconds (loadUptimeFromDisk None now s) = 0 \<and>
   downtimeSeconds (loadUptimeFromDisk None now s) = 0"
  by (simp add: loadUptimeFromDisk_def)

end
